theory Spec2Isabelle
  imports Complex_Main "HOL-Library.Word" "HOL-Library.Sublist"
begin

unbundle bit_operations_syntax

section \<open>Python values used by server.py\<close>

text \<open>
  The payload handed to \<open>parse_glucose\<close> is a \<open>bytearray\<close>: a list of bytes. Indexing it
  gives a Python \<open>int\<close> in \<open>0..255\<close>; Python integers are unbounded, so they are \<open>int\<close>.
\<close>

type_synonym byte = "8 word"

text \<open>
  The exceptions that occur. \<open>CancelledError\<close> stands for the exceptions that derive from
  \<open>BaseException\<close> only (\<open>asyncio.CancelledError\<close>, \<open>KeyboardInterrupt\<close>): an
  \<open>except Exception\<close> clause does not catch them.
\<close>

datatype exc = IndexError | StructError | OSError | BleakError | TimeoutError | CancelledError

definition is_Exception :: "exc \<Rightarrow> bool" where
  "is_Exception e = (e \<noteq> CancelledError)"

definition bind_exc :: "exc + 'a \<Rightarrow> ('a \<Rightarrow> exc + 'b) \<Rightarrow> exc + 'b" where
  "bind_exc r f = (case r of Inl e \<Rightarrow> Inl e | Inr x \<Rightarrow> f x)"

text \<open>\<open>data[i]\<close> for a non-negative index: \<open>IndexError\<close> when out of range.\<close>

definition getitem :: "byte list \<Rightarrow> nat \<Rightarrow> exc + int" where
  "getitem data i = (if i < length data then Inr (uint (data ! i)) else Inl IndexError)"

text \<open>\<open>data[i:j]\<close>: a slice never raises, it returns the bytes that are there.\<close>

definition py_slice :: "byte list \<Rightarrow> nat \<Rightarrow> nat \<Rightarrow> byte list" where
  "py_slice data i j = take (j - i) (drop i data)"

text \<open>
  \<open>struct.unpack('<H', b)[0]\<close>: the buffer must hold exactly two bytes, read as a
  little-endian unsigned 16-bit number; otherwise \<open>struct.error\<close>.
\<close>

definition unpack_H :: "byte list \<Rightarrow> exc + int" where
  "unpack_H b = (case b of [lo, hi] \<Rightarrow> Inr (uint lo + 256 * uint hi) | _ \<Rightarrow> Inl StructError)"

subsection \<open>Binary floating point\<close>

text \<open>
  A Python \<open>float\<close> is an IEEE 754 binary64 number. The finite ones are modelled by sign
  and magnitude, the magnitude being the exact rational value of the double; the sign is
  kept apart because \<open>-0.0\<close> exists and prints differently. Every operation rounds the
  exact result to the nearest double, ties to even (\<open>fl\<close>); subnormal results are handled
  (the exponent is not taken below \<open>-1074\<close>). Overflow to infinity is outside the model:
  the magnitudes that \<open>parse_glucose\<close> computes stay below \<open>2 ^ 53\<close>.
\<close>

datatype float64 = F64 (neg: bool) (mag: rat)

definition round_half_even :: "rat \<Rightarrow> int" where
  "round_half_even x =
     (let f = \<lfloor>x\<rfloor>; d = x - of_int f
      in if d < 1 / 2 then f
         else if 1 / 2 < d then f + 1
         else if even f then f else f + 1)"

text \<open>\<open>ndigits b p\<close> is the number of digits of \<open>p > 0\<close> in base \<open>b\<close>.\<close>

function ndigits :: "int \<Rightarrow> int \<Rightarrow> int" where
  "ndigits b p = (if 0 < p \<and> 1 < b then ndigits b (p div b) + 1 else 0)"
  by pat_completeness auto
termination
  by (relation "measure (\<lambda>(b, p). nat p)") (auto simp: int_div_less_self)

declare ndigits.simps [simp del]

text \<open>\<open>ilog b x\<close> is the integer \<open>k\<close> with \<open>b ^ k \<le> x < b ^ (k + 1)\<close>, for \<open>x > 0\<close>.\<close>

definition ilog :: "int \<Rightarrow> rat \<Rightarrow> int" where
  "ilog b x =
     (let (p, q) = quotient_of x;
          d = ndigits b p - ndigits b q
      in if of_int b powi d \<le> x then d else d - 1)"

definition fl :: "rat \<Rightarrow> rat" where
  "fl x =
     (if x = 0 then 0
      else let e = max (ilog 2 x - 52) (- 1074)
           in of_int (round_half_even (x / 2 powi e)) * 2 powi e)"

definition float_of_int :: "int \<Rightarrow> float64" where
  "float_of_int n = F64 (n < 0) (fl (of_int \<bar>n\<bar>))"

definition float_mul :: "float64 \<Rightarrow> float64 \<Rightarrow> float64" where
  "float_mul a b = F64 (neg a \<noteq> neg b) (fl (mag a * mag b))"

text \<open>Division by a non-zero double (the only divisor in the program is a literal).\<close>

definition float_div :: "float64 \<Rightarrow> float64 \<Rightarrow> float64" where
  "float_div a b = F64 (neg a \<noteq> neg b) (fl (mag a / mag b))"

text \<open>The literal \<open>18.0182\<close>: the double nearest to the decimal.\<close>

definition lit_18_0182 :: float64 where
  "lit_18_0182 = F64 False (fl (180182 / 10000))"

subsection \<open>Numbers: int or float, as Python's arithmetic dispatches\<close>

datatype pynum = PyInt int | PyFloat float64

fun as_float :: "pynum \<Rightarrow> float64" where
  "as_float (PyInt n) = float_of_int n"
| "as_float (PyFloat x) = x"

text \<open>\<open>a * b\<close>: exact on two ints, otherwise both operands become floats.\<close>

fun py_mul :: "pynum \<Rightarrow> pynum \<Rightarrow> pynum" where
  "py_mul (PyInt a) (PyInt b) = PyInt (a * b)"
| "py_mul a b = PyFloat (float_mul (as_float a) (as_float b))"

text \<open>\<open>a / b\<close>: true division always gives a float.\<close>

definition py_truediv :: "pynum \<Rightarrow> pynum \<Rightarrow> pynum" where
  "py_truediv a b = PyFloat (float_div (as_float a) (as_float b))"

text \<open>
  \<open>10 ** e\<close> for an int \<open>e\<close>: an int when \<open>e \<ge> 0\<close>; for a negative exponent Python
  computes \<open>pow(10.0, e)\<close> in floating point (taken as correctly rounded, which holds for
  the exponents \<open>-8..-1\<close> that occur).
\<close>

definition pow10 :: "int \<Rightarrow> pynum" where
  "pow10 e = (if 0 \<le> e then PyInt (10 ^ nat e) else PyFloat (F64 False (fl (10 powi e))))"

text \<open>\<open>round(x)\<close>: an int; a float is rounded half to even.\<close>

fun py_round :: "pynum \<Rightarrow> int" where
  "py_round (PyInt n) = n"
| "py_round (PyFloat x) =
     (if neg x then - round_half_even (mag x) else round_half_even (mag x))"

text \<open>
  \<open>round(x, 1)\<close>: an int is returned as it is; a float is rounded to one decimal (half
  to even on its exact value) and the decimal is converted back to the nearest double.
\<close>

fun py_round1 :: "pynum \<Rightarrow> pynum" where
  "py_round1 (PyInt n) = PyInt n"
| "py_round1 (PyFloat x) =
     PyFloat (F64 (neg x) (fl (of_int (round_half_even (mag x * 10)) / 10)))"

subsection \<open>Formatting\<close>

text \<open>The decimal digits of a non-negative int.\<close>

function dec :: "int \<Rightarrow> string" where
  "dec n =
     (if n < 10 then [''0123456789'' ! nat n]
      else dec (n div 10) @ [''0123456789'' ! nat (n mod 10)])"
  by pat_completeness auto
termination
  by (relation "measure nat") auto

declare dec.simps [simp del]

text \<open>\<open>str(n)\<close> and \<open>f"{n}"\<close> for an int.\<close>

definition str_int :: "int \<Rightarrow> string" where
  "str_int n = (if n < 0 then CHR ''-'' # dec (- n) else dec n)"

text \<open>\<open>f"{n:02d}"\<close>: zero-padded to a width of at least two, the sign counted in.\<close>

definition fmt_02d :: "int \<Rightarrow> string" where
  "fmt_02d n =
     (if n < 0 then CHR ''-'' # dec (- n)
      else if n < 10 then CHR ''0'' # dec n else dec n)"

text \<open>
  \<open>repr\<close> of a float is the shortest decimal that reads back as the same double. For
  each number of significant digits \<open>n = 1, 2, ...\<close> the two decimals of \<open>n\<close> digits
  around the value are tried; 17 digits always suffice.
\<close>

definition roundtrip_at :: "rat \<Rightarrow> nat \<Rightarrow> rat option" where
  "roundtrip_at x n =
     (let s = 10 powi (ilog 10 x + 1 - int n);
          lo = of_int \<lfloor>x / s\<rfloor> * s;
          hi = lo + s
      in if fl lo = x \<and> fl hi = x then Some (if x - lo \<le> hi - x then lo else hi)
         else if fl lo = x then Some lo
         else if fl hi = x then Some hi
         else None)"

fun shortest_decimal :: "nat \<Rightarrow> nat \<Rightarrow> rat \<Rightarrow> rat" where
  "shortest_decimal 0 n x = x"
| "shortest_decimal (Suc fuel) n x =
     (case roundtrip_at x n of Some c \<Rightarrow> c | None \<Rightarrow> shortest_decimal fuel (Suc n) x)"

fun strip_zeros :: "string \<Rightarrow> string" where
  "strip_zeros [] = []"
| "strip_zeros (c # cs) =
     (let r = strip_zeros cs in if r = [] \<and> c = CHR ''0'' then [] else c # r)"

text \<open>
  The digits \<open>ds\<close> and the position \<open>decpt\<close> of the decimal point (the value is
  \<open>0.ds * 10 ^ decpt\<close>) are laid out as \<open>repr\<close> does: exponent notation when
  \<open>decpt \<le> -4\<close> or \<open>decpt > 16\<close>, otherwise positional with at least \<open>.0\<close>.
\<close>

definition layout_repr :: "string \<Rightarrow> int \<Rightarrow> string" where
  "layout_repr ds decpt =
     (if decpt \<le> - 4 \<or> 16 < decpt then
        take 1 ds @ (if length ds \<le> 1 then [] else CHR ''.'' # drop 1 ds) @ ''e''
          @ (if decpt - 1 < 0 then ''-'' else ''+'') @ fmt_02d \<bar>decpt - 1\<bar>
      else if decpt \<le> 0 then ''0.'' @ replicate (nat (- decpt)) CHR ''0'' @ ds
      else if nat decpt < length ds then take (nat decpt) ds @ CHR ''.'' # drop (nat decpt) ds
      else ds @ replicate (nat decpt - length ds) CHR ''0'' @ ''.0'')"

definition repr_float :: "float64 \<Rightarrow> string" where
  "repr_float x =
     (if neg x then ''-'' else []) @
     (if mag x = 0 then ''0.0''
      else let c = shortest_decimal 17 1 (mag x);
               k = ilog 10 c;
               ds = strip_zeros (dec \<lfloor>c / 10 powi (k - 16)\<rfloor>)
           in layout_repr ds (k + 1))"

text \<open>\<open>str(x)\<close> of a number.\<close>

fun py_str :: "pynum \<Rightarrow> string" where
  "py_str (PyInt n) = str_int n"
| "py_str (PyFloat x) = repr_float x"

section \<open>The measurement decoder: \<open>parse_glucose\<close>\<close>

text \<open>
  The SFLOAT word: \<open>mantissa = raw & 0x0FFF\<close>, \<open>exponent = raw >> 12\<close>, each then read
  as two's complement by the two \<open>if\<close> statements of the source.
\<close>

definition sfloat_mantissa :: "int \<Rightarrow> int" where
  "sfloat_mantissa raw_sfloat =
     (let mantissa = raw_sfloat AND 0x0FFF
      in if 0x0800 \<le> mantissa then - (0x1000 - mantissa) else mantissa)"

definition sfloat_exponent :: "int \<Rightarrow> int" where
  "sfloat_exponent raw_sfloat =
     (let exponent = drop_bit 12 raw_sfloat
      in if 0x08 \<le> exponent then - (0x10 - exponent) else exponent)"

text \<open>\<open>val = mantissa * (10 ** exponent)\<close>.\<close>

definition sfloat_val :: "int \<Rightarrow> pynum" where
  "sfloat_val raw_sfloat =
     py_mul (PyInt (sfloat_mantissa raw_sfloat)) (pow10 (sfloat_exponent raw_sfloat))"

text \<open>The two branches on \<open>concentration_unit_kg_l\<close>; the result is \<open>(mgdl, mmol)\<close>.\<close>

definition convert_units :: "bool \<Rightarrow> pynum \<Rightarrow> int \<times> pynum" where
  "convert_units concentration_unit_kg_l val =
     (if concentration_unit_kg_l then
        (let mgdl = py_round (py_mul val (PyInt 100000));
             mmol = py_round1 (py_truediv (PyInt mgdl) (PyFloat lit_18_0182))
         in (mgdl, mmol))
      else
        (let mmol = py_round1 (py_mul val (PyInt 1000));
             mgdl = py_round (py_mul mmol (PyFloat lit_18_0182))
         in (mgdl, mmol)))"

text \<open>The f-string that builds \<open>dt_str\<close>.\<close>

definition dt_str :: "int \<Rightarrow> int \<Rightarrow> int \<Rightarrow> int \<Rightarrow> int \<Rightarrow> int \<Rightarrow> string" where
  "dt_str year month day hours minutes seconds =
     str_int year @ ''-'' @ fmt_02d month @ ''-'' @ fmt_02d day @ '' ''
       @ fmt_02d hours @ '':'' @ fmt_02d minutes @ '':'' @ fmt_02d seconds"

text \<open>
  \<open>parse_glucose(data)\<close>, statement by statement; the offsets are the values the variable
  \<open>offset\<close> has at each read (1, then 3 after the sequence number, 10 after the base
  time, 12 when the time offset is skipped). The result is the tuple
  \<open>(dt_str, mgdl, mmol)\<close>, or the exception raised.
\<close>

definition parse_glucose :: "byte list \<Rightarrow> exc + (string \<times> int \<times> pynum)" where
  "parse_glucose data =
     bind_exc (getitem data 0) (\<lambda>flags.
     let time_offset_present = (flags AND 0x01 = 1);
         type_sample_location_present = (flags AND 0x02 = 2);
         concentration_unit_kg_l = (flags AND 0x04 = 0)
     in
     bind_exc (unpack_H (py_slice data 3 5)) (\<lambda>year.
     bind_exc (getitem data 5) (\<lambda>month.
     bind_exc (getitem data 6) (\<lambda>day.
     bind_exc (getitem data 7) (\<lambda>hours.
     bind_exc (getitem data 8) (\<lambda>minutes.
     bind_exc (getitem data 9) (\<lambda>seconds.
     let offset = (if time_offset_present then 12 else 10);
         dt = dt_str year month day hours minutes seconds
     in
     bind_exc (unpack_H (py_slice data offset (offset + 2))) (\<lambda>raw_sfloat.
     let (mgdl, mmol) = convert_units concentration_unit_kg_l (sfloat_val raw_sfloat)
     in Inr (dt, mgdl, mmol)))))))))"

section \<open>Global state, the CSV file and the log\<close>

text \<open>
  What the program prints, one constructor for each \<open>print\<close> statement (the text of an
  exception is kept as the exception).
\<close>

datatype log_line =
    Log_NewReading int
  | Log_Parsed int string
  | Log_ParseError exc
  | Log_ServiceStarted
  | Log_Found "string option"
  | Log_Connected
  | Log_SyncComplete
  | Log_ConnectionError exc
  | Log_LoopError exc

text \<open>
  The effects a run leaves behind, in order: a line printed, an assignment to
  \<open>latest_status\<close>, and \<open>asyncio.sleep\<close> with its number of seconds.
\<close>

datatype event = Print log_line | Status string | Sleep nat

text \<open>
  The globals \<open>latest_status\<close> and \<open>readings_cache\<close> (a list of dicts with string
  keys, kept as association lists), the file \<open>sugar_readings.csv\<close> as its rows
  (\<open>None\<close> while the file does not exist), and the effects so far.
\<close>

record state =
  latest_status :: string
  readings_cache :: "(string \<times> string) list list"
  csv_file :: "string list list option"
  trace :: "event list"

definition emit :: "event \<Rightarrow> state \<Rightarrow> state" where
  "emit ev st = st\<lparr>trace := trace st @ [ev]\<rparr>"

definition set_status :: "string \<Rightarrow> state \<Rightarrow> state" where
  "set_status s st = emit (Status s) (st\<lparr>latest_status := s\<rparr>)"

text \<open>The route \<open>/api/data\<close>: the status and the cached readings.\<close>

definition get_data :: "state \<Rightarrow> string \<times> (string \<times> string) list list" where
  "get_data st = (latest_status st, readings_cache st)"

text \<open>
  A stateful statement yields the exception in flight, if any, and the state reached:
  what was assigned before a \<open>raise\<close> stays assigned.

  \<open>try: ... except Exception as e: print(...)\<close>: an exception of class \<open>Exception\<close>
  is caught and printed, any other goes on.
\<close>

definition except_Exception ::
  "exc option \<times> state \<Rightarrow> (exc \<Rightarrow> log_line) \<Rightarrow> exc option \<times> state" where
  "except_Exception r line =
     (case r of
        (None, st) \<Rightarrow> (None, st)
      | (Some e, st) \<Rightarrow>
          if is_Exception e then (None, emit (Print (line e)) st) else (Some e, st))"

text \<open>
  What the file system does with the \<open>with open(CSV_FILE, 'w', newline='') as f\<close> block of
  \<open>save_reading\<close> is the environment's choice:
  \<^item> \<open>Sink_Ok\<close>: the file is opened, both rows are written and the file is closed;
  \<^item> \<open>Open_Raises\<close>: \<open>open\<close> raises \<open>OSError\<close>; the file is not touched;
  \<^item> \<open>Write_Raises left\<close>: \<open>open\<close> succeeds, which truncates the file, and then a
    \<open>writerow\<close> or the flush on leaving the block raises \<open>OSError\<close>; \<open>left\<close> is what the
    file holds at that point (nothing, or a part of what was being written).
\<close>

datatype sink_outcome = Sink_Ok | Open_Raises | Write_Raises "string list list"

text \<open>
  \<open>save_reading(timestamp, mgdl, mmol)\<close>. When the block raises, nothing below it runs:
  the cache is not assigned and nothing is printed. The csv writer turns the numbers into
  text with \<open>str\<close>.
\<close>

definition save_reading ::
  "sink_outcome \<Rightarrow> string \<Rightarrow> int \<Rightarrow> pynum \<Rightarrow> state \<Rightarrow> exc option \<times> state" where
  "save_reading sink timestamp mgdl mmol st =
     (case sink of
        Open_Raises \<Rightarrow> (Some OSError, st)
      | Write_Raises left \<Rightarrow> (Some OSError, st\<lparr>csv_file := Some left\<rparr>)
      | Sink_Ok \<Rightarrow>
          let st1 = st\<lparr>csv_file :=
                      Some [[''Timestamp'', ''Glucose (mg/dL)'', ''Glucose (mmol/L)''],
                            [timestamp, str_int mgdl, py_str mmol]]\<rparr>;
              st2 = st1\<lparr>readings_cache :=
                      [[(''timestamp'', timestamp),
                        (''mgdl'', str_int mgdl),
                        (''mmol'', py_str mmol)]]\<rparr>
          in (None, emit (Print (Log_NewReading mgdl)) st2))"

text \<open>\<open>notification_handler(sender, data)\<close>; \<open>sender\<close> is not used.\<close>

definition notification_handler ::
  "sink_outcome \<Rightarrow> byte list \<Rightarrow> state \<Rightarrow> exc option \<times> state" where
  "notification_handler sink data st =
     except_Exception
       (case parse_glucose data of
          Inl e \<Rightarrow> (Some e, st)
        | Inr (dt, mgdl, mmol) \<Rightarrow>
            save_reading sink dt mgdl mmol (emit (Print (Log_Parsed mgdl dt)) st))
       Log_ParseError"

section \<open>The acquisition loop: \<open>ble_loop\<close>\<close>

text \<open>
  The transport is the environment. For one pass of \<open>while True\<close> it fixes what each
  awaited call does: return a value or raise.
\<close>

datatype 'a outcome = Returns 'a | Raises exc

datatype ble_device = BLEDevice (device_name: "string option")

record pass_env =
  find_by_uuid :: "ble_device option outcome"
  find_by_name :: "ble_device option outcome"
  connect :: "bool outcome"
  start_notify :: "unit outcome"
  notifications :: "(byte list \<times> sink_outcome) list"
  stop_notify :: "unit outcome"
  disconnect :: "unit outcome"

text \<open>
  \<open>find_by_uuid\<close>: the scan by service UUID (5 s); \<open>find_by_name\<close>: the fallback scan by
  name (2 s), made only when the first found nothing; \<open>connect\<close>: entering
  \<open>async with BleakClient(...)\<close>, returning \<open>client.is_connected\<close>; \<open>notifications\<close>:
  the payloads delivered to \<open>notification_handler\<close> during the 10 s wait, each with
  what the file system does then; \<open>disconnect\<close>: leaving the \<open>async with\<close>.
\<close>

text \<open>\<open>f"{device.name}"\<close>: a missing name prints as \<open>None\<close>.\<close>

definition fmt_name :: "string option \<Rightarrow> string" where
  "fmt_name n = (case n of None \<Rightarrow> ''None'' | Some s \<Rightarrow> s)"

text \<open>
  The callbacks run inside the transport's dispatcher, one after another; what a callback
  raises does not reach \<open>ble_loop\<close>.
\<close>

fun deliver :: "(byte list \<times> sink_outcome) list \<Rightarrow> state \<Rightarrow> state" where
  "deliver [] st = st"
| "deliver ((data, sink) # rest) st =
     deliver rest (snd (notification_handler sink data st))"

text \<open>The body of \<open>if client.is_connected:\<close>.\<close>

definition sync_body :: "pass_env \<Rightarrow> state \<Rightarrow> exc option \<times> state" where
  "sync_body env st =
     (let st1 = emit (Print Log_Connected) (set_status ''Connected! Waiting for Data...'' st)
      in case start_notify env of
           Raises e \<Rightarrow> (Some e, st1)
         | Returns _ \<Rightarrow>
             let st2 = deliver (notifications env) (emit (Sleep 10) st1)
             in case stop_notify env of
                  Raises e \<Rightarrow> (Some e, st2)
                | Returns _ \<Rightarrow> (None, emit (Print Log_SyncComplete) st2))"

text \<open>
  \<open>async with BleakClient(device, timeout=20.0) as client\<close>: when entering raises, the
  body and the exit do not run; otherwise the exit runs whatever the body did, and an
  exception of the exit replaces the body's.
\<close>

definition with_client :: "pass_env \<Rightarrow> state \<Rightarrow> exc option \<times> state" where
  "with_client env st =
     (case connect env of
        Raises e \<Rightarrow> (Some e, st)
      | Returns is_connected \<Rightarrow>
          let (e, st') = (if is_connected then sync_body env st else (None, st))
          in case disconnect env of
               Raises e' \<Rightarrow> (Some e', st')
             | Returns _ \<Rightarrow> (e, st'))"

text \<open>The two scans.\<close>

definition scan :: "pass_env \<Rightarrow> ble_device option outcome" where
  "scan env =
     (case find_by_uuid env of
        Raises e \<Rightarrow> Raises e
      | Returns None \<Rightarrow> find_by_name env
      | Returns (Some device) \<Rightarrow> Returns (Some device))"

text \<open>The body of the outer \<open>try\<close>.\<close>

definition try_body :: "pass_env \<Rightarrow> state \<Rightarrow> exc option \<times> state" where
  "try_body env st =
     (case scan env of
        Raises e \<Rightarrow> (Some e, st)
      | Returns None \<Rightarrow> (None, st)
      | Returns (Some device) \<Rightarrow>
          let st1 = set_status (''Connecting to '' @ fmt_name (device_name device) @ ''...'') st;
              st2 = emit (Print (Log_Found (device_name device))) st1
          in except_Exception (with_client env st2) Log_ConnectionError)"

text \<open>One pass of \<open>while True\<close>, ending with \<open>await asyncio.sleep(2.0)\<close>.\<close>

definition ble_pass :: "pass_env \<Rightarrow> state \<Rightarrow> exc option \<times> state" where
  "ble_pass env st =
     (case except_Exception
             (try_body env (set_status ''Scanning for Accu-Chek...'' st)) Log_LoopError of
        (Some e, st') \<Rightarrow> (Some e, st')
      | (None, st') \<Rightarrow> (None, emit (Sleep 2) st'))"

text \<open>
  The loop has no exit of its own. It is run along a finite list of passes of the
  environment: the result is the state after the last pass, or the exception that left
  the loop and the state at that point.
\<close>

fun run_passes :: "pass_env list \<Rightarrow> state \<Rightarrow> exc option \<times> state" where
  "run_passes [] st = (None, st)"
| "run_passes (env # envs) st =
     (case ble_pass env st of
        (Some e, st') \<Rightarrow> (Some e, st')
      | (None, st') \<Rightarrow> run_passes envs st')"

definition ble_loop :: "pass_env list \<Rightarrow> state \<Rightarrow> exc option \<times> state" where
  "ble_loop envs st = run_passes envs (emit (Print Log_ServiceStarted) st)"

section \<open>Auxiliary definitions for the statements\<close>

text \<open>
  What \<open>parse_glucose\<close> returns on a payload long enough, written with the bytes of the
  payload: the base time is bytes 3 to 9 and the concentration word starts at byte 10,
  or at byte 12 when bit 0 of the flags is set.
\<close>

definition decoded :: "byte list \<Rightarrow> string \<times> int \<times> pynum" where
  "decoded data =
     (let flags = uint (data ! 0);
          offset = (if flags AND 1 = 1 then 12 else 10);
          raw_sfloat = uint (data ! offset) + 256 * uint (data ! Suc offset);
          (mgdl, mmol) = convert_units (flags AND 4 = 0) (sfloat_val raw_sfloat)
      in (dt_str (uint (data ! 3) + 256 * uint (data ! 4)) (uint (data ! 5)) (uint (data ! 6))
            (uint (data ! 7)) (uint (data ! 8)) (uint (data ! 9)), mgdl, mmol))"

text \<open>The globals as the module sets them at start, before any file is there.\<close>

definition initial_state :: state where
  "initial_state =
     \<lparr>latest_status = ''Initializing...'', readings_cache = [], csv_file = None, trace = []\<rparr>"



text \<open>The exact rational value of a number.\<close>

definition num_value :: "pynum \<Rightarrow> rat" where
  "num_value x =
     (case x of PyInt n \<Rightarrow> of_int n
      | PyFloat f \<Rightarrow> if neg f then - mag f else mag f)"

text \<open>
  The conversion formulas as the specification words them, in exact arithmetic: the value
  is the rational \<open>mantissa * 10 ^ exponent\<close>, the constant is the decimal \<open>18.0182\<close>, and
  rounding is to the nearest integer or the nearest tenth of the exact number (a half
  goes to the even neighbour, as Python's \<open>round\<close> does).
\<close>

definition spec_value :: "int \<Rightarrow> rat" where
  "spec_value raw_sfloat =
     of_int (sfloat_mantissa raw_sfloat) * 10 powi sfloat_exponent raw_sfloat"

definition round_tenth :: "rat \<Rightarrow> rat" where
  "round_tenth x = of_int (round_half_even (x * 10)) / 10"

definition spec_units :: "bool \<Rightarrow> rat \<Rightarrow> int \<times> rat" where
  "spec_units kg_l v =
     (if kg_l then
        (let mgdl = round_half_even (v * 100000);
             mmol = round_tenth (of_int mgdl / (180182 / 10000))
         in (mgdl, mmol))
      else
        (let mmol = round_tenth (v * 1000);
             mgdl = round_half_even (mmol * (180182 / 10000))
         in (mgdl, mmol)))"

text \<open>
  For the statements about the loop. A fault of the peer or the transport is an exception
  of class \<open>Exception\<close>: \<open>peer_faults_only\<close> holds of a pass in which nothing else is
  raised. \<open>idle_sleeps\<close> counts the 2-second sleeps that end the passes, and
  \<open>failing_pass\<close> is a pass in which the device is found and the connection times out.
\<close>

fun catchable :: "'a outcome \<Rightarrow> bool" where
  "catchable (Returns x) = True"
| "catchable (Raises e) = is_Exception e"

definition peer_faults_only :: "pass_env \<Rightarrow> bool" where
  "peer_faults_only env =
     (catchable (find_by_uuid env) \<and> catchable (find_by_name env) \<and> catchable (connect env) \<and>
      catchable (start_notify env) \<and> catchable (stop_notify env) \<and> catchable (disconnect env))"

definition idle_sleeps :: "state \<Rightarrow> nat" where
  "idle_sleeps st = length (filter (\<lambda>ev. ev = Sleep 2) (trace st))"

definition failing_pass :: pass_env where
  "failing_pass =
     \<lparr>find_by_uuid = Returns (Some (BLEDevice (Some ''Accu-Chek''))),
      find_by_name = Returns None,
      connect = Raises TimeoutError,
      start_notify = Returns (),
      notifications = [],
      stop_notify = Returns (),
      disconnect = Returns ()\<rparr>"

section \<open>Reading bytes and words from a payload\<close>

lemma getitem_0: "getitem (x # rest) 0 = Inr (uint x)"
  by (simp add: getitem_def)

lemma getitem_Cons: "0 < i \<Longrightarrow> getitem (x # rest) i = getitem rest (i - 1)"
  by (cases i) (simp_all add: getitem_def)

lemma py_slice_Cons: "0 < i \<Longrightarrow> py_slice (x # rest) i j = py_slice rest (i - 1) (j - 1)"
  by (cases i) (simp_all add: py_slice_def)

lemma take2_drop: "i + 2 \<le> length xs \<Longrightarrow> take 2 (drop i xs) = [xs ! i, xs ! Suc i]"
proof -
  assume len: "i + 2 \<le> length xs"
  then have "drop i xs = xs ! i # drop (Suc i) xs"
    by (simp add: Cons_nth_drop_Suc)
  moreover from len have "drop (Suc i) xs = xs ! Suc i # drop (Suc (Suc i)) xs"
    by (simp add: Cons_nth_drop_Suc)
  ultimately show ?thesis
    by (simp add: numeral_2_eq_2)
qed

lemma unpack_H_bad: "length b \<noteq> 2 \<Longrightarrow> unpack_H b = Inl StructError"
  by (auto simp add: unpack_H_def split: list.splits)

lemma unpack_H_slice:
  "unpack_H (py_slice data i (i + 2)) =
     (if i + 2 \<le> length data then Inr (uint (data ! i) + 256 * uint (data ! Suc i))
      else Inl StructError)"
proof (cases "i + 2 \<le> length data")
  case True
  then show ?thesis
    by (simp add: py_slice_def take2_drop unpack_H_def)
next
  case False
  then have "length (py_slice data i (i + 2)) \<noteq> 2"
    by (simp add: py_slice_def)
  with False show ?thesis
    by (simp add: unpack_H_bad)
qed

text \<open>
  \<open>parse_glucose\<close> by the length of the payload: the first read that fails decides the
  exception, and 12 bytes (14 with the time offset) are needed for a result.
\<close>

lemma parse_glucose_eq:
  "parse_glucose data =
     (if data = [] then Inl IndexError
      else if length data < 5 then Inl StructError
      else if length data < 10 then Inl IndexError
      else if length data < (if uint (data ! 0) AND 1 = 1 then 14 else 12) then Inl StructError
      else Inr (decoded data))"
proof -
  have s35: "unpack_H (py_slice data 3 5) =
     (if 5 \<le> length data then Inr (uint (data ! 3) + 256 * uint (data ! 4)) else Inl StructError)"
    using unpack_H_slice [of data 3] by (simp add: eval_nat_numeral)
  have s10: "unpack_H (py_slice data 10 12) =
     (if 12 \<le> length data then Inr (uint (data ! 10) + 256 * uint (data ! 11)) else Inl StructError)"
    using unpack_H_slice [of data 10] by (simp add: eval_nat_numeral)
  have s12: "unpack_H (py_slice data 12 14) =
     (if 14 \<le> length data then Inr (uint (data ! 12) + 256 * uint (data ! 13)) else Inl StructError)"
    using unpack_H_slice [of data 12] by (simp add: eval_nat_numeral)
  show ?thesis
    unfolding parse_glucose_def
    by (simp add: bind_exc_def getitem_def s35 s10 s12 decoded_def Let_def
        split: prod.splits)
qed

section \<open>The flags byte\<close>

lemma flags_bit1_and_1: "(uint ((f::byte) XOR 2) AND 1 = 1) = (uint f AND 1 = 1)"
  by (simp add: uint_xor and_one_eq even_xor_iff flip: odd_iff_mod_2_eq_one)

lemma and_4_iff: "(x AND (4::int) = 0) = (\<not> bit x 2)"
  using and_exp_eq_0_iff_not_bit [of x 2] by simp

lemma flags_bit1_and_4: "(uint ((f::byte) XOR 2) AND 4 = 0) = (uint f AND 4 = 0)"
  by (simp add: and_4_iff uint_xor bit_xor_iff)

text \<open>
  C10. The result of the decoder does not depend on bit 1 of the flags byte
  (type-and-sample-location present): for every payload, flipping that bit leaves the
  outcome of \<open>parse_glucose\<close> unchanged, be it the reading or the exception. No byte is
  skipped for such a field; the flags are only tested with the masks \<open>0x01\<close> and \<open>0x04\<close>.
\<close>

theorem flags_bit1_ignored:
  "parse_glucose ((f XOR 2) # rest) = parse_glucose (f # rest)"
  unfolding parse_glucose_def getitem_0
  by (simp add: bind_exc_def getitem_Cons py_slice_Cons flags_bit1_and_1 flags_bit1_and_4
      cong: sum.case_cong)

section \<open>The decoder\<close>

lemma list2: "length xs = 2 \<Longrightarrow> \<exists>a b. xs = [a, b]"
  by (auto simp add: eval_nat_numeral length_Suc_conv)

lemma list7: "length xs = 7 \<Longrightarrow> \<exists>a b c d e f g. xs = [a, b, c, d, e, f, g]"
  by (auto simp add: eval_nat_numeral length_Suc_conv)

text \<open>
  A reading of 95 mg/dL at 2024-03-15 08:30:00: flags 0, concentration word \<open>0xB05F\<close>
  (mantissa 95, exponent -5).
\<close>

lemma convert_example:
  "convert_units True (sfloat_val 0xB05F) =
     (95, PyFloat (F64 False (5967269506265907 / 1125899906842624)))"
  by code_simp

lemma dt_str_example: "dt_str 2024 3 15 8 30 0 = ''2024-03-15 08:30:00''"
  by code_simp

lemma parse_example:
  "parse_glucose [0, 1, 0, 0xE8, 0x07, 3, 15, 8, 30, 0, 0x5F, 0xB0] =
     Inr (''2024-03-15 08:30:00'', 95, PyFloat (F64 False (5967269506265907 / 1125899906842624)))"
  by (simp add: parse_glucose_eq decoded_def convert_example dt_str_example)

lemma convert_A3BB:
  "convert_units True (sfloat_val 0xA3BB) =
     (95, PyFloat (F64 False (5967269506265907 / 1125899906842624)))"
  by code_simp

lemma convert_B22B:
  "convert_units False (sfloat_val 0xB22B) = (99, PyFloat (F64 False (11 / 2)))"
  by code_simp

lemma convert_0005:
  "convert_units False (sfloat_val 0x0005) = (90091, PyInt 5000)"
  by code_simp

lemma parse_0005:
  "parse_glucose [4, 1, 0, 0xE8, 0x07, 3, 15, 8, 30, 0, 0x05, 0x00] =
     Inr (''2024-03-15 08:30:00'', 90091, PyInt 5000)"
  by (simp add: parse_glucose_eq decoded_def convert_0005 dt_str_example)

lemma spec_units_examples:
  "spec_units True (spec_value 0xA3BB) = (96, 53 / 10) \<and>
   spec_units False (spec_value 0xB22B) = (101, 28 / 5) \<and>
   spec_units False (spec_value 0x0005) = (90091, 5000)"
  by code_simp

lemma round_half_even_of_int: "round_half_even (of_int n) = n"
  by (simp add: round_half_even_def)

lemma round_tenth_of_int: "round_tenth (of_int n) = of_int n"
proof -
  have "(of_int n :: rat) * 10 = of_int (n * 10)"
    by simp
  then have "round_half_even (of_int n * 10) = n * 10"
    by (simp only: round_half_even_of_int)
  then show ?thesis
    by (simp add: round_tenth_def)
qed

lemma sfloat_val_int:
  "0 \<le> sfloat_exponent raw \<Longrightarrow>
   sfloat_val raw = PyInt (sfloat_mantissa raw * 10 ^ nat (sfloat_exponent raw))"
  by (simp add: sfloat_val_def pow10_def)

lemma spec_value_int:
  "0 \<le> sfloat_exponent raw \<Longrightarrow>
   spec_value raw = of_int (sfloat_mantissa raw * 10 ^ nat (sfloat_exponent raw))"
  by (simp add: spec_value_def power_int_def)

text \<open>
  With a non-negative exponent the first field of each branch is computed on integers and
  is the one the exact formulas give.
\<close>

lemma convert_units_int:
  assumes "0 \<le> sfloat_exponent raw"
  shows "fst (convert_units True (sfloat_val raw)) = fst (spec_units True (spec_value raw))"
    and "num_value (snd (convert_units False (sfloat_val raw))) =
         snd (spec_units False (spec_value raw))"
proof -
  let ?v = "sfloat_mantissa raw * 10 ^ nat (sfloat_exponent raw)"
  have "(of_int ?v :: rat) * 100000 = of_int (?v * 100000)"
    by simp
  then have "round_half_even (of_int ?v * 100000) = ?v * 100000"
    by (simp only: round_half_even_of_int)
  then show "fst (convert_units True (sfloat_val raw)) = fst (spec_units True (spec_value raw))"
    using assms
    by (simp add: sfloat_val_int spec_value_int convert_units_def spec_units_def Let_def)
  have "(of_int ?v :: rat) * 1000 = of_int (?v * 1000)"
    by simp
  then have "round_tenth (of_int ?v * 1000) = of_int (?v * 1000)"
    by (simp only: round_tenth_of_int)
  then show "num_value (snd (convert_units False (sfloat_val raw))) =
      snd (spec_units False (spec_value raw))"
    using assms
    by (simp add: sfloat_val_int spec_value_int convert_units_def spec_units_def Let_def
        num_value_def)
qed

text \<open>
  C1, as stated, fails when its formulas are read in exact arithmetic on the decoded
  decimal value. Concentration word \<open>0xA3BB\<close> (mantissa 955, exponent -6, value 0.000955)
  with the kg/L unit: the formula gives \<open>round(95.5) = 96\<close> mg/dL, the code returns 95,
  because its product is the double \<open>95.49999999999999\<close>. Concentration word \<open>0xB22B\<close>
  (mantissa 555, exponent -5, value 0.00555) with the mol/L unit: the formulas give 5.6
  mmol/L and 101 mg/dL, the code returns 5.5 and 99.
\<close>

theorem glucose_units_not_exact:
  "parse_glucose [0, 1, 0, 0xE8, 0x07, 3, 15, 8, 30, 0, 0xBB, 0xA3] =
     Inr (''2024-03-15 08:30:00'', 95, PyFloat (F64 False (5967269506265907 / 1125899906842624))) \<and>
   spec_units True (spec_value 0xA3BB) = (96, 53 / 10) \<and>
   parse_glucose [4, 1, 0, 0xE8, 0x07, 3, 15, 8, 30, 0, 0x2B, 0xB2] =
     Inr (''2024-03-15 08:30:00'', 99, PyFloat (F64 False (11 / 2))) \<and>
   spec_units False (spec_value 0xB22B) = (101, 28 / 5)"
  using spec_units_examples
  by (simp add: parse_glucose_eq decoded_def convert_A3BB convert_B22B dt_str_example)

text \<open>
  C1, amended. For every payload that \<open>parse_glucose\<close> accepts, the two glucose fields of
  the result follow the branch chosen by bit 2 of the flags, both computed from the one
  value \<open>val\<close> that the code decodes from the concentration word, with every operation
  Python's own: exact on ints, IEEE binary64 otherwise, \<open>round\<close> to the nearest with a
  half going to the even neighbour, and \<open>18.0182\<close> the double nearest to that decimal.
  Bit 2 clear (kg/L): \<open>mgdl = round(val * 100000)\<close> and \<open>mmol = round(mgdl / 18.0182, 1)\<close>.
  Bit 2 set (mol/L): \<open>mmol = round(val * 1000, 1)\<close> and \<open>mgdl = round(mmol * 18.0182)\<close>.
  So the two fields are never set independently. When the exponent is not negative, the
  first field of the branch (mg/dL for kg/L, mmol/L for mol/L) is also what the formula
  gives in exact arithmetic.
\<close>

theorem glucose_units:
  assumes "parse_glucose data = Inr (dt, mgdl, mmol)"
  shows "let flags = uint (data ! 0);
             offset = (if flags AND 1 = 1 then 12 else 10);
             raw = uint (data ! offset) + 256 * uint (data ! Suc offset);
             val = sfloat_val raw
         in (if flags AND 4 = 0
             then mgdl = py_round (py_mul val (PyInt 100000)) \<and>
                  mmol = py_round1 (py_truediv (PyInt mgdl) (PyFloat lit_18_0182))
             else mmol = py_round1 (py_mul val (PyInt 1000)) \<and>
                  mgdl = py_round (py_mul mmol (PyFloat lit_18_0182))) \<and>
            (0 \<le> sfloat_exponent raw \<longrightarrow>
               (if flags AND 4 = 0
                then mgdl = fst (spec_units True (spec_value raw))
                else num_value mmol = snd (spec_units False (spec_value raw))))"
proof -
  let ?flags = "uint (data ! 0)"
  let ?offset = "if ?flags AND 1 = 1 then 12 else 10"
  let ?raw = "uint (data ! ?offset) + 256 * uint (data ! Suc ?offset)"
  from assms have d: "(mgdl, mmol) = convert_units (?flags AND 4 = 0) (sfloat_val ?raw)"
    by (auto simp add: parse_glucose_eq decoded_def Let_def split: if_splits prod.splits)
  have formulas: "if ?flags AND 4 = 0
      then mgdl = py_round (py_mul (sfloat_val ?raw) (PyInt 100000)) \<and>
           mmol = py_round1 (py_truediv (PyInt mgdl) (PyFloat lit_18_0182))
      else mmol = py_round1 (py_mul (sfloat_val ?raw) (PyInt 1000)) \<and>
           mgdl = py_round (py_mul mmol (PyFloat lit_18_0182))"
    using d by (simp add: convert_units_def Let_def split: if_splits)
  have exact: "0 \<le> sfloat_exponent ?raw \<longrightarrow>
      (if ?flags AND 4 = 0
       then mgdl = fst (spec_units True (spec_value ?raw))
       else num_value mmol = snd (spec_units False (spec_value ?raw)))"
  proof
    assume e: "0 \<le> sfloat_exponent ?raw"
    show "if ?flags AND 4 = 0
       then mgdl = fst (spec_units True (spec_value ?raw))
       else num_value mmol = snd (spec_units False (spec_value ?raw))"
    proof (cases "?flags AND 4 = 0")
      case True
      with d have "convert_units True (sfloat_val ?raw) = (mgdl, mmol)"
        by simp
      then have "mgdl = fst (convert_units True (sfloat_val ?raw))"
        by simp
      with True show ?thesis
        using convert_units_int(1) [OF e] by simp
    next
      case False
      with d have "convert_units False (sfloat_val ?raw) = (mgdl, mmol)"
        by simp
      then have "mmol = snd (convert_units False (sfloat_val ?raw))"
        by simp
      with False show ?thesis
        using convert_units_int(2) [OF e] by simp
    qed
  qed
  from formulas exact show ?thesis
    by (simp only: Let_def)
qed

theorem glucose_units_witness:
  "parse_glucose [0, 1, 0, 0xE8, 0x07, 3, 15, 8, 30, 0, 0x5F, 0xB0] =
     Inr (''2024-03-15 08:30:00'', 95, PyFloat (F64 False (5967269506265907 / 1125899906842624))) \<and>
   95 = py_round (py_mul (sfloat_val 0xB05F) (PyInt 100000)) \<and>
   PyFloat (F64 False (5967269506265907 / 1125899906842624)) =
     py_round1 (py_truediv (PyInt 95) (PyFloat lit_18_0182)) \<and>
   parse_glucose [4, 1, 0, 0xE8, 0x07, 3, 15, 8, 30, 0, 0x05, 0x00] =
     Inr (''2024-03-15 08:30:00'', 90091, PyInt 5000) \<and>
   0 \<le> sfloat_exponent 0x0005 \<and>
   PyInt 5000 = py_round1 (py_mul (sfloat_val 0x0005) (PyInt 1000)) \<and>
   90091 = py_round (py_mul (PyInt 5000) (PyFloat lit_18_0182)) \<and>
   num_value (PyInt 5000) = snd (spec_units False (spec_value 0x0005))"
proof -
  have e: "0 \<le> sfloat_exponent 0x0005"
    by (simp add: sfloat_exponent_def)
  have a: "95 = py_round (py_mul (sfloat_val 0xB05F) (PyInt 100000)) \<and>
      PyFloat (F64 False (5967269506265907 / 1125899906842624)) =
        py_round1 (py_truediv (PyInt 95) (PyFloat lit_18_0182))"
    using glucose_units [OF parse_example] by simp
  have b: "PyInt 5000 = py_round1 (py_mul (sfloat_val 0x0005) (PyInt 1000)) \<and>
      90091 = py_round (py_mul (PyInt 5000) (PyFloat lit_18_0182)) \<and>
      num_value (PyInt 5000) = snd (spec_units False (spec_value 0x0005))"
  proof -
    have r: "py_round1 (py_mul (sfloat_val 0x0005) (PyInt 1000)) = PyInt 5000"
      by (simp add: sfloat_val_def pow10_def sfloat_mantissa_def sfloat_exponent_def)
    show ?thesis
      using glucose_units [OF parse_0005] e
      by (simp add: r del: py_round.simps py_mul.simps as_float.simps)
  qed
  from a b e parse_example parse_0005 show ?thesis
    by blast
qed

text \<open>
  C3. A payload shorter than 10 bytes is never decoded: \<open>parse_glucose\<close> raises, and
  \<open>notification_handler\<close> catches the exception and only prints it. The status, the
  cached readings and the CSV file are as before; nothing is committed.
\<close>

theorem short_payload_rejected:
  assumes "length data < 10"
  shows "\<exists>e. parse_glucose data = Inl e \<and>
             notification_handler sink data st =
               (None, st\<lparr>trace := trace st @ [Print (Log_ParseError e)]\<rparr>)"
  using assms
  by (auto simp add: parse_glucose_eq notification_handler_def except_Exception_def
      is_Exception_def emit_def)

theorem short_payload_rejected_witness:
  "length [0, 1, 0 :: byte] < 10 \<and>
   (\<exists>e. parse_glucose [0, 1, 0] = Inl e \<and>
        notification_handler Sink_Ok [0, 1, 0] initial_state =
          (None, initial_state\<lparr>trace := trace initial_state @ [Print (Log_ParseError e)]\<rparr>))"
  using short_payload_rejected [of "[0, 1, 0]" Sink_Ok initial_state] by simp

text \<open>
  C6. When bit 0 of the flags is set, exactly two bytes after the base time are skipped
  and not used. Take a payload without the time offset (bit 0 clear) and one with it
  (bit 0 set) that have the same base time, the same unit bit and the same bytes after
  the optional field; the sequence numbers and the two offset bytes are arbitrary. Then
  \<open>parse_glucose\<close> gives the same outcome on both, so the same timestamp in particular.
\<close>

theorem time_offset_skipped:
  assumes "length seq1 = 2" and "length seq2 = 2" and "length base = 7" and "length off = 2"
    and "uint f1 AND 1 \<noteq> 1" and "uint f2 AND 1 = 1"
    and "(uint f1 AND 4 = 0) = (uint f2 AND 4 = 0)"
  shows "parse_glucose (f2 # seq2 @ base @ off @ rest) = parse_glucose (f1 # seq1 @ base @ rest)"
proof -
  from assms(1) obtain a1 b1 where s1: "seq1 = [a1, b1]" using list2 by blast
  from assms(2) obtain a2 b2 where s2: "seq2 = [a2, b2]" using list2 by blast
  from assms(4) obtain o1 o2 where o: "off = [o1, o2]" using list2 by blast
  from assms(3) obtain y1 y2 y3 y4 y5 y6 y7 where b: "base = [y1, y2, y3, y4, y5, y6, y7]"
    using list7 by blast
  show ?thesis
    using assms(5-7)
    by (simp add: parse_glucose_eq decoded_def s1 s2 o b)
qed

theorem time_offset_skipped_witness:
  "length [1, 0 :: byte] = 2 \<and> length [2, 0 :: byte] = 2 \<and>
   length [0xE8, 0x07, 3, 15, 8, 30, 0 :: byte] = 7 \<and> length [9, 9 :: byte] = 2 \<and>
   uint (0 :: byte) AND 1 \<noteq> 1 \<and> uint (1 :: byte) AND 1 = 1 \<and>
   (uint (0 :: byte) AND 4 = 0) = (uint (1 :: byte) AND 4 = 0) \<and>
   parse_glucose (1 # [2, 0] @ [0xE8, 0x07, 3, 15, 8, 30, 0] @ [9, 9] @ [0x5F, 0xB0]) =
   parse_glucose (0 # [1, 0] @ [0xE8, 0x07, 3, 15, 8, 30, 0] @ [0x5F, 0xB0])"
  using time_offset_skipped [of "[1, 0]" "[2, 0]" "[0xE8, 0x07, 3, 15, 8, 30, 0]" "[9, 9]" 0 1
      "[0x5F, 0xB0]"]
  by simp

section \<open>The SFLOAT word\<close>

lemma and_fff: "(x::int) AND 0x0FFF = take_bit 12 x"
  by (simp add: take_bit_eq_mask mask_eq_exp_minus_1)

lemma signed_take_bit_cases:
  "signed_take_bit n (x::int) =
     (if 2 ^ n \<le> take_bit (Suc n) x then take_bit (Suc n) x - 2 ^ Suc n else take_bit (Suc n) x)"
proof -
  have t: "take_bit (Suc n) x = 2 ^ n * of_bool (bit x n) + take_bit n x"
    by (rule take_bit_Suc_from_most)
  have b: "\<not> 2 ^ n \<le> take_bit n x"
    by (simp add: not_le)
  have s: "signed_take_bit n x = take_bit (Suc n) x - 2 ^ Suc n * of_bool (bit x n)"
    by (rule signed_take_bit_eq_take_bit_minus)
  show ?thesis
    using t b s by (cases "bit x n") simp_all
qed

lemma mantissa_signed: "sfloat_mantissa x = signed_take_bit 11 x"
  using signed_take_bit_cases [of 11 x]
  by (simp add: sfloat_mantissa_def Let_def and_fff)

lemma exponent_signed:
  assumes "0 \<le> x" and "x < 65536"
  shows "sfloat_exponent x = signed_take_bit 3 (drop_bit 12 x)"
proof -
  have "0 \<le> drop_bit 12 x" using assms(1) by simp
  moreover have "drop_bit 12 x < 16" using assms(2) by (simp add: drop_bit_eq_div)
  ultimately have "take_bit 4 (drop_bit 12 x) = drop_bit 12 x"
    by (simp add: take_bit_int_eq_self)
  then show ?thesis
    using signed_take_bit_cases [of 3 "drop_bit 12 x"]
    by (simp add: sfloat_exponent_def Let_def)
qed

lemma sint_low12: "sint (ucast (w :: 16 word) :: 12 word) = signed_take_bit 11 (uint w)"
  by (simp add: sint_uint unsigned_ucast_eq signed_take_bit_take_bit)

lemma sint_high4:
  "sint (ucast (drop_bit 12 (w :: 16 word)) :: 4 word) = signed_take_bit 3 (drop_bit 12 (uint w))"
proof -
  have "take_bit 16 (uint w) = uint w"
    using uint_lt2p [of w] by (simp add: take_bit_int_eq_self)
  then show ?thesis
    by (simp add: sint_uint unsigned_ucast_eq unsigned_drop_bit_eq signed_take_bit_take_bit)
qed

lemma little_endian_word:
  "uint lo + 256 * uint hi = uint (word_cat (hi::byte) (lo::byte) :: 16 word)"
proof -
  have hi: "0 \<le> uint hi" "uint hi < 256" and lo: "0 \<le> uint lo" "uint lo < 256"
    using uint_lt2p [of hi] uint_lt2p [of lo] by simp_all
  have "uint (word_cat hi lo :: 16 word) = (uint hi * 256 + uint lo) mod 65536"
    by (simp add: word_cat_eq push_bit_eq_mult uint_word_ariths unsigned_ucast_eq
        take_bit_eq_mod mod_simps)
  also have "\<dots> = uint hi * 256 + uint lo"
    using hi lo by simp
  finally show ?thesis by simp
qed

text \<open>
  C2. The two concentration bytes are read as a little-endian 16-bit word. Its low 12 bits
  are the mantissa and its high 4 bits the exponent, each in two's complement: the
  decoded mantissa is the signed value of the 12-bit word, the decoded exponent the signed
  value of the 4-bit word. In particular raw word \<open>0x0FFF\<close> has mantissa \<open>-1\<close> (and
  exponent 0), raw word \<open>0x07FF\<close> has mantissa 2047, the sign boundary is at \<open>0x0800\<close>,
  exponent field \<open>0xD\<close> gives \<open>-3\<close> and exponent field \<open>0x3\<close> gives 3.
\<close>

theorem sfloat_twos_complement:
  "unpack_H [lo, hi] = Inr (uint (word_cat hi lo :: 16 word)) \<and>
   sfloat_mantissa (uint (w :: 16 word)) = sint (ucast w :: 12 word) \<and>
   sfloat_exponent (uint w) = sint (ucast (drop_bit 12 w) :: 4 word) \<and>
   sfloat_mantissa 0x0FFF = - 1 \<and> sfloat_exponent 0x0FFF = 0 \<and>
   sfloat_mantissa 0x07FF = 2047 \<and> sfloat_mantissa 0x0800 = - 2048 \<and>
   sfloat_exponent 0xD000 = - 3 \<and> sfloat_exponent 0x3000 = 3"
proof -
  have "unpack_H [lo, hi] = Inr (uint (word_cat hi lo :: 16 word))"
    by (simp add: unpack_H_def little_endian_word)
  moreover have "sfloat_mantissa (uint w) = sint (ucast w :: 12 word)"
    by (simp add: mantissa_signed sint_low12)
  moreover have "sfloat_exponent (uint w) = sint (ucast (drop_bit 12 w) :: 4 word)"
    using uint_lt2p [of w] by (simp add: exponent_signed sint_high4)
  moreover have "sfloat_mantissa 0x0FFF = - 1 \<and> sfloat_exponent 0x0FFF = 0 \<and>
      sfloat_mantissa 0x07FF = 2047 \<and> sfloat_mantissa 0x0800 = - 2048 \<and>
      sfloat_exponent 0xD000 = - 3 \<and> sfloat_exponent 0x3000 = 3"
    by (simp add: sfloat_mantissa_def sfloat_exponent_def)
  ultimately show ?thesis by blast
qed

section \<open>The timestamp\<close>











section \<open>The reading store\<close>

lemma str_example:
  "str_int 95 = ''95'' \<and>
   py_str (PyFloat (F64 False (5967269506265907 / 1125899906842624))) = ''5.3''"
  by code_simp

text \<open>
  C8. The store keeps the single most recent reading: after every \<open>save_reading\<close> that
  returns, what \<open>/api/data\<close> shows is the unchanged status and a list of exactly one
  reading, the one just saved (its numbers as text), whatever the cache held before.
\<close>

theorem single_latest_reading:
  assumes "fst (save_reading sink timestamp mgdl mmol st) = None"
  shows "get_data (snd (save_reading sink timestamp mgdl mmol st)) =
           (latest_status st,
            [[(''timestamp'', timestamp), (''mgdl'', str_int mgdl), (''mmol'', py_str mmol)]])"
  using assms
  by (simp add: save_reading_def get_data_def emit_def Let_def split: sink_outcome.splits)

theorem single_latest_reading_witness:
  "fst (save_reading Sink_Ok ''2024-03-15 08:30:00'' 95
          (PyFloat (F64 False (5967269506265907 / 1125899906842624)))
          (initial_state\<lparr>readings_cache :=
             [[(''timestamp'', ''2024-03-14 07:15:00''), (''mgdl'', ''110''), (''mmol'', ''6.1'')],
              [(''timestamp'', ''2024-03-13 07:20:00''), (''mgdl'', ''104''), (''mmol'', ''5.8'')]]\<rparr>))
     = None \<and>
   get_data (snd (save_reading Sink_Ok ''2024-03-15 08:30:00'' 95
          (PyFloat (F64 False (5967269506265907 / 1125899906842624)))
          (initial_state\<lparr>readings_cache :=
             [[(''timestamp'', ''2024-03-14 07:15:00''), (''mgdl'', ''110''), (''mmol'', ''6.1'')],
              [(''timestamp'', ''2024-03-13 07:20:00''), (''mgdl'', ''104''), (''mmol'', ''5.8'')]]\<rparr>))) =
     (''Initializing...'',
      [[(''timestamp'', ''2024-03-15 08:30:00''), (''mgdl'', ''95''), (''mmol'', ''5.3'')]])"
proof -
  let ?st = "initial_state\<lparr>readings_cache :=
             [[(''timestamp'', ''2024-03-14 07:15:00''), (''mgdl'', ''110''), (''mmol'', ''6.1'')],
              [(''timestamp'', ''2024-03-13 07:20:00''), (''mgdl'', ''104''), (''mmol'', ''5.8'')]]\<rparr>"
  have ok: "fst (save_reading Sink_Ok ''2024-03-15 08:30:00'' 95
          (PyFloat (F64 False (5967269506265907 / 1125899906842624))) ?st) = None"
    by (simp add: save_reading_def)
  show ?thesis
    using single_latest_reading [OF ok] ok str_example
    by (simp add: initial_state_def)
qed

lemma notification_handler_never_raises:
  "fst (notification_handler sink data st) = None"
  by (cases "parse_glucose data")
     (auto simp add: notification_handler_def except_Exception_def save_reading_def
        parse_glucose_eq is_Exception_def Let_def
        split: if_splits sink_outcome.splits prod.splits)

text \<open>
  C5, as stated, fails. \<open>save_reading\<close> writes the CSV file first and has no handler of its
  own: when the write raises, be it in \<open>open\<close> or after it, the exception leaves
  \<open>save_reading\<close> before the cache is assigned. For the reading of 95 mg/dL and an empty
  cache, the cache is still empty after the failed write, while it holds the reading when
  the file is written.
\<close>

theorem sink_failure_drops_reading:
  "save_reading Open_Raises ''2024-03-15 08:30:00'' 95
     (PyFloat (F64 False (5967269506265907 / 1125899906842624))) initial_state =
     (Some OSError, initial_state) \<and>
   readings_cache (snd (notification_handler Open_Raises
     [0, 1, 0, 0xE8, 0x07, 3, 15, 8, 30, 0, 0x5F, 0xB0] initial_state)) = [] \<and>
   readings_cache (snd (notification_handler (Write_Raises [])
     [0, 1, 0, 0xE8, 0x07, 3, 15, 8, 30, 0, 0x5F, 0xB0] initial_state)) = [] \<and>
   readings_cache (snd (notification_handler Sink_Ok
     [0, 1, 0, 0xE8, 0x07, 3, 15, 8, 30, 0, 0x5F, 0xB0] initial_state)) =
     [[(''timestamp'', ''2024-03-15 08:30:00''), (''mgdl'', ''95''), (''mmol'', ''5.3'')]]"
  using str_example
  by (simp add: notification_handler_def parse_example save_reading_def except_Exception_def
      is_Exception_def emit_def initial_state_def)

text \<open>
  C5, amended. A failure of the CSV write never leaves \<open>notification_handler\<close>: the handler
  raises nothing, whatever the payload and the file system do, so nothing unwinds into the
  transport or the loop. When the payload decodes and the write raises, in \<open>open\<close> or
  after it, the exception is caught and printed as a parse error and the reading is not
  committed to the store: the status and the cached readings are as before. The file is
  as before when \<open>open\<close> raised, and holds what the failed write left when a later step
  raised.
\<close>

theorem sink_failure_contained:
  assumes "parse_glucose data = Inr (dt, mgdl, mmol)" and "sink \<noteq> Sink_Ok"
  shows "fst (notification_handler any_sink data st) = None \<and>
         notification_handler sink data st =
           (None, st\<lparr>csv_file := (case sink of Write_Raises left \<Rightarrow> Some left
                                     | _ \<Rightarrow> csv_file st),
                    trace := trace st @
                      [Print (Log_Parsed mgdl dt), Print (Log_ParseError OSError)]\<rparr>) \<and>
         latest_status (snd (notification_handler sink data st)) = latest_status st \<and>
         readings_cache (snd (notification_handler sink data st)) = readings_cache st"
proof -
  have never: "fst (notification_handler any_sink data st) = None"
    by (rule notification_handler_never_raises)
  have result: "notification_handler sink data st =
      (None, st\<lparr>csv_file := (case sink of Write_Raises left \<Rightarrow> Some left
                                | _ \<Rightarrow> csv_file st),
               trace := trace st @
                 [Print (Log_Parsed mgdl dt), Print (Log_ParseError OSError)]\<rparr>)"
    using assms
    by (cases sink)
       (simp_all add: notification_handler_def except_Exception_def save_reading_def
          is_Exception_def emit_def)
  from never result show ?thesis
    by simp
qed

theorem sink_failure_contained_witness:
  "parse_glucose [0, 1, 0, 0xE8, 0x07, 3, 15, 8, 30, 0, 0x5F, 0xB0] =
     Inr (''2024-03-15 08:30:00'', 95, PyFloat (F64 False (5967269506265907 / 1125899906842624))) \<and>
   Write_Raises [[''Timestamp'', ''Glucose (mg/dL)'', ''Glucose (mmol/L)'']] \<noteq> Sink_Ok \<and>
   notification_handler (Write_Raises [[''Timestamp'', ''Glucose (mg/dL)'', ''Glucose (mmol/L)'']])
       [0, 1, 0, 0xE8, 0x07, 3, 15, 8, 30, 0, 0x5F, 0xB0] initial_state =
     (None, initial_state
        \<lparr>csv_file := Some [[''Timestamp'', ''Glucose (mg/dL)'', ''Glucose (mmol/L)'']],
         trace := trace initial_state @
           [Print (Log_Parsed 95 ''2024-03-15 08:30:00''), Print (Log_ParseError OSError)]\<rparr>) \<and>
   readings_cache (snd (notification_handler
       (Write_Raises [[''Timestamp'', ''Glucose (mg/dL)'', ''Glucose (mmol/L)'']])
       [0, 1, 0, 0xE8, 0x07, 3, 15, 8, 30, 0, 0x5F, 0xB0] initial_state)) =
     readings_cache initial_state"
proof -
  have w: "Write_Raises [[''Timestamp'', ''Glucose (mg/dL)'', ''Glucose (mmol/L)'']] \<noteq> Sink_Ok"
    by simp
  show ?thesis
    using sink_failure_contained [OF parse_example w, of Sink_Ok initial_state] parse_example w
    by simp
qed

section \<open>The decoded value\<close>

text \<open>
  C4, as stated, fails. With a negative exponent \<open>10 ** exponent\<close> is a binary float, and
  so is the product: for mantissa 3 and exponent -1 (raw word \<open>0xF003\<close>) the value is the
  double \<open>0.30000000000000004\<close>, not three tenths.
\<close>

theorem sfloat_val_not_exact:
  "sfloat_mantissa 0xF003 = 3 \<and> sfloat_exponent 0xF003 = - 1 \<and>
   sfloat_val 0xF003 = PyFloat (F64 False (1351079888211149 / 4503599627370496)) \<and>
   num_value (sfloat_val 0xF003) \<noteq>
     of_int (sfloat_mantissa 0xF003) * 10 powi sfloat_exponent 0xF003"
  by code_simp

text \<open>
  C4, amended. When the exponent is not negative the value is computed in integer
  arithmetic and equals \<open>mantissa * 10 ^ exponent\<close> exactly.
\<close>

theorem sfloat_val_exact:
  assumes "0 \<le> sfloat_exponent raw"
  shows "sfloat_val raw = PyInt (sfloat_mantissa raw * 10 ^ nat (sfloat_exponent raw)) \<and>
         num_value (sfloat_val raw) =
           of_int (sfloat_mantissa raw) * 10 powi sfloat_exponent raw"
  using assms
  by (simp add: sfloat_val_def pow10_def num_value_def power_int_def)

theorem sfloat_val_exact_witness:
  "0 \<le> sfloat_exponent 0x3005 \<and> sfloat_val 0x3005 = PyInt 5000 \<and>
   num_value (sfloat_val 0x3005) = 5000"
  using sfloat_val_exact [of "0x3005"]
  by (simp add: sfloat_exponent_def sfloat_mantissa_def num_value_def)

section \<open>The acquisition loop\<close>

text \<open>Every statement only adds to the trace.\<close>

lemma trace_emit: "prefix (trace st) (trace (emit ev st))"
  by (simp add: emit_def)

lemma trace_set_status: "trace (set_status s st) = trace st @ [Status s]"
  by (simp add: set_status_def emit_def)

lemma trace_except:
  "prefix (trace (snd r)) (trace (snd (except_Exception r line)))"
  by (cases r) (auto simp add: except_Exception_def emit_def split: option.splits)

lemma trace_save_reading:
  "prefix (trace st) (trace (snd (save_reading sink ts mgdl mmol st)))"
  by (simp add: save_reading_def emit_def Let_def split: sink_outcome.splits)

lemma trace_notification_handler:
  "prefix (trace st) (trace (snd (notification_handler sink data st)))"
proof -
  let ?r = "case parse_glucose data of
          Inl e \<Rightarrow> (Some e, st)
        | Inr (dt, mgdl, mmol) \<Rightarrow>
            save_reading sink dt mgdl mmol (emit (Print (Log_Parsed mgdl dt)) st)"
  have "prefix (trace st) (trace (snd ?r))"
  proof (cases "parse_glucose data")
    case (Inl e)
    then show ?thesis by simp
  next
    case (Inr r)
    obtain dt mgdl mmol where r: "r = (dt, mgdl, mmol)" by (cases r)
    let ?st1 = "emit (Print (Log_Parsed mgdl dt)) st"
    have "prefix (trace st) (trace ?st1)"
      by (rule trace_emit)
    also have "prefix \<dots> (trace (snd (save_reading sink dt mgdl mmol ?st1)))"
      by (rule trace_save_reading)
    finally show ?thesis
      using Inr r by simp
  qed
  then show ?thesis
    unfolding notification_handler_def
    using trace_except prefix_order.trans by blast
qed

lemma trace_deliver: "prefix (trace st) (trace (deliver ns st))"
proof (induction ns arbitrary: st)
  case Nil
  show ?case by simp
next
  case (Cons n ns)
  obtain data sink where n: "n = (data, sink)" by (cases n)
  have "prefix (trace st) (trace (snd (notification_handler sink data st)))"
    by (rule trace_notification_handler)
  also have "prefix \<dots> (trace (deliver ns (snd (notification_handler sink data st))))"
    by (rule Cons.IH)
  finally show ?case by (simp add: n)
qed

lemma trace_sync_body: "prefix (trace st) (trace (snd (sync_body env st)))"
proof -
  let ?st1 = "emit (Print Log_Connected) (set_status ''Connected! Waiting for Data...'' st)"
  let ?st2 = "deliver (notifications env) (emit (Sleep 10) ?st1)"
  have 1: "prefix (trace st) (trace ?st1)"
    by (simp add: emit_def set_status_def)
  have "prefix (trace ?st1) (trace (emit (Sleep 10) ?st1))"
    by (rule trace_emit)
  also have "prefix \<dots> (trace ?st2)"
    by (rule trace_deliver)
  finally have 2: "prefix (trace st) (trace ?st2)"
    using 1 prefix_order.trans by blast
  have 3: "prefix (trace st) (trace (emit (Print Log_SyncComplete) ?st2))"
    using 2 trace_emit prefix_order.trans by blast
  show ?thesis
    using 1 2 3 by (simp add: sync_body_def Let_def split: outcome.splits)
qed

lemma trace_with_client: "prefix (trace st) (trace (snd (with_client env st)))"
  using trace_sync_body [of st env]
  by (auto simp add: with_client_def Let_def split: outcome.splits prod.splits)

lemma trace_try_body: "prefix (trace st) (trace (snd (try_body env st)))"
proof (cases "scan env")
  case (Raises e)
  then show ?thesis by (simp add: try_body_def)
next
  case (Returns d)
  show ?thesis
  proof (cases d)
    case None
    with Returns show ?thesis by (simp add: try_body_def)
  next
    case (Some device)
    let ?st2 = "emit (Print (Log_Found (device_name device)))
        (set_status (''Connecting to '' @ fmt_name (device_name device) @ ''...'') st)"
    have "prefix (trace st) (trace ?st2)"
      by (simp add: emit_def set_status_def)
    also have "prefix (trace ?st2) (trace (snd (with_client env ?st2)))"
      by (rule trace_with_client)
    also have "prefix \<dots> (trace (snd (except_Exception (with_client env ?st2) Log_ConnectionError)))"
      by (rule trace_except)
    finally show ?thesis
      using Returns Some by (simp add: try_body_def Let_def)
  qed
qed

lemma trace_ble_pass:
  "prefix (trace st @ [Status ''Scanning for Accu-Chek...'']) (trace (snd (ble_pass env st)))"
proof -
  let ?st0 = "set_status ''Scanning for Accu-Chek...'' st"
  let ?r = "except_Exception (try_body env ?st0) Log_LoopError"
  have "prefix (trace ?st0) (trace (snd (try_body env ?st0)))"
    by (rule trace_try_body)
  also have "prefix \<dots> (trace (snd ?r))"
    by (rule trace_except)
  finally have 1: "prefix (trace st @ [Status ''Scanning for Accu-Chek...'']) (trace (snd ?r))"
    by (simp add: trace_set_status)
  have 2: "prefix (trace (snd ?r)) (trace (snd (ble_pass env st)))"
    by (cases ?r) (auto simp add: ble_pass_def emit_def split: option.splits)
  from 1 2 show ?thesis
    using prefix_order.trans by blast
qed

lemma trace_run_passes: "prefix (trace st) (trace (snd (run_passes envs st)))"
proof (induction envs arbitrary: st)
  case Nil
  show ?case by simp
next
  case (Cons env envs)
  have 1: "prefix (trace st) (trace (snd (ble_pass env st)))"
    using trace_ble_pass [of st env] by (meson prefix_order.trans prefixI append_prefixD)
  show ?case
  proof (cases "ble_pass env st")
    case (Pair e st')
    show ?thesis
    proof (cases e)
      case None
      with Pair 1 Cons.IH [of st'] show ?thesis
        by (auto intro: prefix_order.trans)
    next
      case (Some ex)
      with Pair 1 show ?thesis by simp
    qed
  qed
qed

text \<open>What a pass can raise, and what the two handlers let through.\<close>

lemma except_catches:
  "(\<And>e. fst r = Some e \<Longrightarrow> is_Exception e) \<Longrightarrow> fst (except_Exception r line) = None"
  by (cases r) (auto simp add: except_Exception_def split: option.splits)

lemma raised_with_client:
  assumes "fst (with_client env st) = Some e" and "peer_faults_only env"
  shows "is_Exception e"
  using assms
  by (auto simp add: with_client_def sync_body_def peer_faults_only_def Let_def
      split: outcome.splits prod.splits if_splits)

lemma raised_try_body:
  assumes "fst (try_body env st) = Some e" and "peer_faults_only env"
  shows "is_Exception e"
proof (cases "scan env")
  case (Raises x)
  with assms show ?thesis
    by (auto simp add: try_body_def scan_def peer_faults_only_def
        split: outcome.splits option.splits)
next
  case (Returns d)
  show ?thesis
  proof (cases d)
    case None
    with Returns assms show ?thesis by (simp add: try_body_def)
  next
    case (Some device)
    let ?st2 = "emit (Print (Log_Found (device_name device)))
        (set_status (''Connecting to '' @ fmt_name (device_name device) @ ''...'') st)"
    have "fst (except_Exception (with_client env ?st2) Log_ConnectionError) = None"
      using raised_with_client [OF _ assms(2)] by (rule except_catches)
    with Returns Some assms(1) show ?thesis
      by (simp add: try_body_def Let_def)
  qed
qed

lemma ble_pass_survives: "peer_faults_only env \<Longrightarrow> fst (ble_pass env st) = None"
proof -
  assume p: "peer_faults_only env"
  let ?r = "except_Exception (try_body env (set_status ''Scanning for Accu-Chek...'' st))
      Log_LoopError"
  have "fst ?r = None"
    using raised_try_body [OF _ p] by (rule except_catches)
  then show ?thesis
    by (cases ?r) (simp add: ble_pass_def)
qed

lemma run_passes_survives: "list_all peer_faults_only envs \<Longrightarrow> fst (run_passes envs st) = None"
proof (induction envs arbitrary: st)
  case Nil
  show ?case by simp
next
  case (Cons env envs)
  then have "fst (ble_pass env st) = None"
    by (simp add: ble_pass_survives)
  then obtain st' where "ble_pass env st = (None, st')"
    by (cases "ble_pass env st") simp
  with Cons show ?case by simp
qed

text \<open>The only 2-second sleep of a pass is the one that ends it.\<close>

lemma idle_emit: "idle_sleeps (emit ev st) = idle_sleeps st + (if ev = Sleep 2 then 1 else 0)"
  by (simp add: idle_sleeps_def emit_def)

lemma idle_set_status: "idle_sleeps (set_status s st) = idle_sleeps st"
  by (simp add: idle_sleeps_def set_status_def emit_def)

lemma idle_except: "idle_sleeps (snd (except_Exception r line)) = idle_sleeps (snd r)"
  by (cases r) (auto simp add: except_Exception_def idle_emit split: option.splits)

lemma idle_notification_handler:
  "idle_sleeps (snd (notification_handler sink data st)) = idle_sleeps st"
  unfolding notification_handler_def idle_except
  by (auto simp add: save_reading_def idle_emit Let_def idle_sleeps_def emit_def
      split: sum.splits sink_outcome.splits)

lemma idle_deliver: "idle_sleeps (deliver ns st) = idle_sleeps st"
  by (induction ns arbitrary: st) (auto simp add: idle_notification_handler)

lemma idle_sync_body: "idle_sleeps (snd (sync_body env st)) = idle_sleeps st"
  by (simp add: sync_body_def Let_def idle_emit idle_set_status idle_deliver
      split: outcome.splits)

lemma idle_with_client: "idle_sleeps (snd (with_client env st)) = idle_sleeps st"
  using idle_sync_body [of env st]
  by (auto simp add: with_client_def Let_def split: outcome.splits prod.splits)

lemma idle_try_body: "idle_sleeps (snd (try_body env st)) = idle_sleeps st"
  by (simp add: try_body_def Let_def idle_except idle_with_client idle_emit idle_set_status
      split: outcome.splits option.splits)

lemma idle_ble_pass:
  "fst (ble_pass env st) = None \<Longrightarrow> idle_sleeps (snd (ble_pass env st)) = Suc (idle_sleeps st)"
proof -
  let ?r = "except_Exception (try_body env (set_status ''Scanning for Accu-Chek...'' st))
      Log_LoopError"
  assume "fst (ble_pass env st) = None"
  moreover have "idle_sleeps (snd ?r) = idle_sleeps st"
    by (simp add: idle_except idle_try_body idle_set_status)
  ultimately show ?thesis
    by (cases ?r) (auto simp add: ble_pass_def idle_emit split: option.splits)
qed

lemma idle_run_passes:
  "fst (run_passes envs st) = None \<Longrightarrow>
   idle_sleeps (snd (run_passes envs st)) = idle_sleeps st + length envs"
proof (induction envs arbitrary: st)
  case Nil
  show ?case by simp
next
  case (Cons env envs)
  obtain e st' where p: "ble_pass env st = (e, st')"
    by (cases "ble_pass env st")
  show ?case
  proof (cases e)
    case None
    with p Cons.prems have "fst (run_passes envs st') = None" by simp
    then have "idle_sleeps (snd (run_passes envs st')) = idle_sleeps st' + length envs"
      by (rule Cons.IH)
    moreover have "idle_sleeps st' = Suc (idle_sleeps st)"
      using idle_ble_pass [of env st] p None by simp
    ultimately show ?thesis
      using p None by simp
  next
    case (Some ex)
    with p Cons.prems show ?thesis by simp
  qed
qed

lemma failed_connect_pass:
  assumes "scan env = Returns (Some device)" and "connect env = Raises e" and "is_Exception e"
  shows "ble_pass env st =
     (None, st\<lparr>latest_status := ''Connecting to '' @ fmt_name (device_name device) @ ''...'',
              trace := trace st @
                [Status ''Scanning for Accu-Chek...'',
                 Status (''Connecting to '' @ fmt_name (device_name device) @ ''...''),
                 Print (Log_Found (device_name device)),
                 Print (Log_ConnectionError e),
                 Sleep 2]\<rparr>)"
  using assms
  by (simp add: ble_pass_def try_body_def with_client_def except_Exception_def
      set_status_def emit_def Let_def)

lemma failing_pass_scan: "scan failing_pass = Returns (Some (BLEDevice (Some ''Accu-Chek'')))"
  by (simp add: scan_def failing_pass_def)

text \<open>
  C7, as stated, fails: the failure of a connect attempt is printed, not published. In a
  pass where the device is found and the connection times out, \<open>latest_status\<close> is
  assigned twice, \<open>Scanning for Accu-Chek...\<close> and \<open>Connecting to Accu-Chek...\<close>; the
  error goes to \<open>print\<close> only, and during the idle sleep the status still says
  \<open>Connecting\<close>.
\<close>

theorem failure_not_published:
  "ble_pass failing_pass initial_state =
     (None,
      \<lparr>latest_status = ''Connecting to Accu-Chek...'',
       readings_cache = [],
       csv_file = None,
       trace = [Status ''Scanning for Accu-Chek...'',
                Status ''Connecting to Accu-Chek...'',
                Print (Log_Found (Some ''Accu-Chek'')),
                Print (Log_ConnectionError TimeoutError),
                Sleep 2]\<rparr>)"
  by (simp add: ble_pass_def try_body_def with_client_def except_Exception_def scan_def
      set_status_def emit_def failing_pass_def initial_state_def fmt_name_def is_Exception_def)

text \<open>
  C7, amended. After a connect attempt that fails with an exception of class
  \<open>Exception\<close>, the pass prints the failure and publishes nothing: the status stays
  \<open>Connecting to <name>...\<close> through exactly one idle sleep of 2 seconds, and the first
  thing the next pass does is to publish \<open>Scanning for Accu-Chek...\<close>. The pass raises
  nothing; more generally, along any run in which only such faults occur, no exception
  leaves the loop and every pass ends with its idle sleep.
\<close>

theorem failed_connect_recovers:
  assumes "scan env = Returns (Some device)" and "connect env = Raises e" and "is_Exception e"
    and "list_all peer_faults_only envs"
  shows "ble_pass env st =
           (None, st\<lparr>latest_status := ''Connecting to '' @ fmt_name (device_name device) @ ''...'',
                    trace := trace st @
                      [Status ''Scanning for Accu-Chek...'',
                       Status (''Connecting to '' @ fmt_name (device_name device) @ ''...''),
                       Print (Log_Found (device_name device)),
                       Print (Log_ConnectionError e),
                       Sleep 2]\<rparr>) \<and>
         prefix (trace st @
                   [Status ''Scanning for Accu-Chek...'',
                    Status (''Connecting to '' @ fmt_name (device_name device) @ ''...''),
                    Print (Log_Found (device_name device)),
                    Print (Log_ConnectionError e),
                    Sleep 2,
                    Status ''Scanning for Accu-Chek...''])
                (trace (snd (run_passes (env # next_env # rest) st))) \<and>
         fst (ble_loop envs st) = None \<and>
         idle_sleeps (snd (ble_loop envs st)) = idle_sleeps st + length envs"
proof -
  let ?st1 = "st\<lparr>latest_status := ''Connecting to '' @ fmt_name (device_name device) @ ''...'',
                    trace := trace st @
                      [Status ''Scanning for Accu-Chek...'',
                       Status (''Connecting to '' @ fmt_name (device_name device) @ ''...''),
                       Print (Log_Found (device_name device)),
                       Print (Log_ConnectionError e),
                       Sleep 2]\<rparr>"
  have pass: "ble_pass env st = (None, ?st1)"
    using assms(1-3) by (rule failed_connect_pass)
  have "prefix (trace ?st1 @ [Status ''Scanning for Accu-Chek...''])
      (trace (snd (ble_pass next_env ?st1)))"
    by (rule trace_ble_pass)
  also have "prefix \<dots> (trace (snd (run_passes (next_env # rest) ?st1)))"
    using trace_run_passes [of "snd (ble_pass next_env ?st1)" rest]
    by (cases "ble_pass next_env ?st1") (auto split: option.splits)
  finally have after: "prefix (trace ?st1 @ [Status ''Scanning for Accu-Chek...''])
      (trace (snd (run_passes (env # next_env # rest) st)))"
    using pass by simp
  have alive: "fst (ble_loop envs st) = None"
    using assms(4) by (simp add: ble_loop_def run_passes_survives)
  then have "idle_sleeps (snd (ble_loop envs st)) = idle_sleeps st + length envs"
    using idle_run_passes [of envs "emit (Print Log_ServiceStarted) st"]
    by (simp add: ble_loop_def idle_emit)
  with pass after alive show ?thesis
    by simp
qed

theorem failed_connect_recovers_witness:
  "scan failing_pass = Returns (Some (BLEDevice (Some ''Accu-Chek''))) \<and>
   connect failing_pass = Raises TimeoutError \<and> is_Exception TimeoutError \<and>
   list_all peer_faults_only [failing_pass, failing_pass] \<and>
   latest_status (snd (ble_pass failing_pass initial_state)) = ''Connecting to Accu-Chek...'' \<and>
   fst (ble_loop [failing_pass, failing_pass] initial_state) = None \<and>
   idle_sleeps (snd (ble_loop [failing_pass, failing_pass] initial_state)) = 2"
proof -
  have h2: "connect failing_pass = Raises TimeoutError"
    by (simp add: failing_pass_def)
  have h3: "is_Exception TimeoutError"
    by (simp add: is_Exception_def)
  have h4: "list_all peer_faults_only [failing_pass, failing_pass]"
    by (simp add: peer_faults_only_def failing_pass_def is_Exception_def)
  show ?thesis
    using failed_connect_recovers [OF failing_pass_scan h2 h3 h4, of initial_state]
      failing_pass_scan h2 h3 h4
    by (simp add: fmt_name_def idle_sleeps_def initial_state_def)
qed

end
